theory Spec2Isabelle
  imports Main "HOL-Library.Option_ord" "HOL-Library.Monad_Syntax"
begin

section \<open>Data model (shared/schema.ts)\<close>

text \<open>
  The two tables of \<^verbatim>\<open>shared/schema.ts\<close>. A column declared without
  \<^verbatim>\<open>.notNull()\<close> is nullable, so its Isabelle field is an \<open>option\<close>
  (\<open>None\<close> is SQL \<^verbatim>\<open>NULL\<close>, the \<^verbatim>\<open>null\<close> of the inferred TypeScript type).
  Timestamps are milliseconds since the epoch. Both tables have columns \<^verbatim>\<open>id\<close> and
  \<^verbatim>\<open>createdAt\<close>; the fields carry the table as a prefix to keep them apart
  (\<open>id\<close> is also a constant of HOL).
  Integer columns are unbounded \<open>int\<close>: the range check of PostgreSQL's four-byte
  \<^verbatim>\<open>integer\<close> is not part of this model.
\<close>

datatype role = USER | ADMIN

type_synonym timestamp = int

record user =
  user_id :: string
  email :: string
  password :: string
  avatarUrl :: "string option"
  role :: role
  user_createdAt :: "timestamp option"

record video =
  video_id :: string
  title :: string
  description :: "string option"
  sourceUrl :: string
  thumbnailUrl :: "string option"
  duration :: "string option"
  views :: "int option"
  canPlay :: "bool option"
  canShare :: "bool option"
  canDownload :: "bool option"
  video_createdAt :: "timestamp option"
  updatedAt :: "timestamp option"

text \<open>The database: the rows of each table, in storage order.\<close>

record store =
  users :: "user list"
  videos :: "video list"

section \<open>JSON values and HTTP responses\<close>

text \<open>
  A JSON object is the list of its keys and values in the order the object literal of
  the source writes them; a request body, already parsed by the framework, is a map from
  keys to values. A timestamp is sent as its number.
\<close>

datatype json =
    JNull
  | JBool bool
  | JNum int
  | JStr string
  | JArr "json list"
  | JObj "(string \<times> json) list"

type_synonym body = "string \<rightharpoonup> json"

text \<open>
  What a handler does with \<^verbatim>\<open>res\<close>: \<^verbatim>\<open>res.status(n).json(v)\<close>
  (\<^verbatim>\<open>res.json(v)\<close> is status 200), \<^verbatim>\<open>res.sendStatus(n)\<close> or
  \<^verbatim>\<open>res.status(n).send()\<close>, \<^verbatim>\<open>res.redirect(url)\<close>, and
  \<^verbatim>\<open>next(error)\<close> for an exception the handler caught.
\<close>

datatype response =
    Response nat json
  | SendStatus nat
  | Redirect string
  | NextError

fun keys_of :: "json \<Rightarrow> string list" where
  "keys_of (JObj kvs) = map fst kvs"
| "keys_of (JArr js) = concat (map keys_of js)"
| "keys_of _ = []"

fun response_keys :: "response \<Rightarrow> string list" where
  "response_keys (Response n j) = keys_of j"
| "response_keys _ = []"


fun jnullable :: "('a \<Rightarrow> json) \<Rightarrow> 'a option \<Rightarrow> json" where
  "jnullable f None = JNull"
| "jnullable f (Some x) = f x"

fun role_str :: "role \<Rightarrow> string" where
  "role_str USER = ''USER''"
| "role_str ADMIN = ''ADMIN''"

definition message :: "string \<Rightarrow> json" where
  "message m = JObj [(''message'', JStr m)]"

section \<open>Storage of users (server/storage.ts)\<close>

text \<open>
  \<^verbatim>\<open>const [user] = await db.select().from(users).where(eq(users.id, id))\<close>:
  the first row that matches, or \<^verbatim>\<open>undefined\<close>.
\<close>

definition getUser :: "store \<Rightarrow> string \<Rightarrow> user option" where
  "getUser st i = find (\<lambda>u. user_id u = i) (users st)"

definition getUserByEmail :: "store \<Rightarrow> string \<Rightarrow> user option" where
  "getUserByEmail st em = find (\<lambda>u. email u = em) (users st)"

text \<open>
  \<^verbatim>\<open>InsertUser\<close> is the picked schema: email and password. The insert fills the
  other columns from their defaults: \<open>newId\<close> stands for
  \<^verbatim>\<open>gen_random_uuid()\<close> and \<open>now\<close> for \<^verbatim>\<open>defaultNow()\<close>. The primary key
  and the \<^verbatim>\<open>unique()\<close> constraint on \<^verbatim>\<open>email\<close> make the insert throw
  (\<open>None\<close>) on a duplicate.
\<close>

definition createUser :: "store \<Rightarrow> string \<Rightarrow> string \<Rightarrow> string \<Rightarrow> timestamp
    \<Rightarrow> (user \<times> store) option" where
  "createUser st em pw newId now =
     (if (\<exists>u \<in> set (users st). email u = em \<or> user_id u = newId) then None
      else
        (let u = \<lparr>user_id = newId, email = em, password = pw, avatarUrl = None,
                  role = USER, user_createdAt = Some now\<rparr>
         in Some (u, st\<lparr>users := users st @ [u]\<rparr>)))"

section \<open>Authentication (server/auth.ts)\<close>

text \<open>
  The object literal that \<^verbatim>\<open>/api/register\<close>, \<^verbatim>\<open>/api/login\<close> and
  \<^verbatim>\<open>/api/user\<close> each send; the three literals of the source are the same text.
\<close>

definition userView :: "user \<Rightarrow> json" where
  "userView u = JObj
     [(''id'', JStr (user_id u)),
      (''email'', JStr (email u)),
      (''avatarUrl'', jnullable JStr (avatarUrl u)),
      (''role'', JStr (role_str (role u))),
      (''createdAt'', jnullable JNum (user_createdAt u))]"

text \<open>
  The verify callback of the local strategy. The library hands it the two body fields
  as the request carries them, and the body is unvalidated JSON, so both are JSON values.

  \<open>cmp\<close> is bcrypt's comparison of a supplied string with a stored hash, a primitive
  outside the repository; \<^verbatim>\<open>comparePasswords\<close> rejects (\<open>None\<close>: the
  \<^verbatim>\<open>await\<close> throws) when the supplied value is not a string.
\<close>

fun comparePasswords :: "(string \<Rightarrow> string \<Rightarrow> bool) \<Rightarrow> json \<Rightarrow> string \<Rightarrow> bool option" where
  "comparePasswords cmp (JStr supplied) stored = Some (cmp supplied stored)"
| "comparePasswords cmp supplied stored = None"

text \<open>
  The text that \<^verbatim>\<open>eq(users.email, email)\<close> compares the column with: the string
  itself. What the query builder and the database driver make of a value that is not a
  string is the parameter \<open>drv\<close> (\<open>None\<close>: the query throws).
\<close>

fun emailParam :: "(json \<Rightarrow> string option) \<Rightarrow> json \<Rightarrow> string option" where
  "emailParam drv (JStr s) = Some s"
| "emailParam drv j = drv j"

text \<open>
  \<open>DoneFalse\<close> is \<^verbatim>\<open>done(null, false)\<close>, \<open>DoneUser u\<close> is
  \<^verbatim>\<open>done(null, user)\<close> and \<open>DoneError\<close> is the \<^verbatim>\<open>done(error)\<close> of the
  \<^verbatim>\<open>catch\<close> branch.
\<close>

datatype verdict = DoneFalse | DoneUser user | DoneError

definition verify :: "(string \<Rightarrow> string \<Rightarrow> bool) \<Rightarrow> (json \<Rightarrow> string option) \<Rightarrow> store
    \<Rightarrow> json \<Rightarrow> json \<Rightarrow> verdict" where
  "verify cmp drv st body_email body_password =
     (case emailParam drv body_email of
        None \<Rightarrow> DoneError
      | Some em \<Rightarrow>
          (case getUserByEmail st em of
             None \<Rightarrow> DoneFalse
           | Some u \<Rightarrow>
               (case comparePasswords cmp body_password (password u) of
                  None \<Rightarrow> DoneError
                | Some matches \<Rightarrow> if \<not> matches then DoneFalse else DoneUser u)))"

text \<open>
  JavaScript's \<^verbatim>\<open>!x\<close> on a JSON value: true of \<^verbatim>\<open>null\<close>,
  \<^verbatim>\<open>false\<close>, \<^verbatim>\<open>0\<close> and the empty string.
\<close>

fun jsFalsy :: "json \<Rightarrow> bool" where
  "jsFalsy JNull = True"
| "jsFalsy (JBool b) = (\<not> b)"
| "jsFalsy (JNum n) = (n = 0)"
| "jsFalsy (JStr s) = (s = [])"
| "jsFalsy (JArr js) = False"
| "jsFalsy (JObj kvs) = False"

text \<open>
  The same on a body field that is absent or a string: true when the field is missing
  or the empty string.
\<close>

fun falsy :: "string option \<Rightarrow> bool" where
  "falsy None = True"
| "falsy (Some s) = (s = [])"

text \<open>
  \<^verbatim>\<open>POST /api/login\<close>: \<^verbatim>\<open>passport.authenticate("local")\<close> followed by the
  handler. \<open>body_email\<close> and \<open>body_password\<close> are the values the strategy finds
  for its two fields in the request. The library answers 400 when one is missing or
  falsy (before it calls the verify callback), 401 when the callback reports
  \<^verbatim>\<open>false\<close>, and passes an error of the callback to \<^verbatim>\<open>next\<close>; on
  success the session keeps \<^verbatim>\<open>user.id\<close> (\<^verbatim>\<open>serializeUser\<close>), the
  second component of the result.
\<close>

definition login :: "(string \<Rightarrow> string \<Rightarrow> bool) \<Rightarrow> (json \<Rightarrow> string option) \<Rightarrow> store
    \<Rightarrow> json option \<Rightarrow> json option \<Rightarrow> response \<times> string option" where
  "login cmp drv st body_email body_password =
     (case (body_email, body_password) of
        (Some e, Some pw) \<Rightarrow>
          if jsFalsy e \<or> jsFalsy pw then (SendStatus 400, None)
          else
            (case verify cmp drv st e pw of
               DoneFalse \<Rightarrow> (SendStatus 401, None)
             | DoneError \<Rightarrow> (NextError, None)
             | DoneUser u \<Rightarrow> (Response 200 (userView u), Some (user_id u)))
      | _ \<Rightarrow> (SendStatus 400, None))"

text \<open>
  \<^verbatim>\<open>POST /api/register\<close>. \<open>hash\<close> is \<^verbatim>\<open>hashPassword\<close> (bcrypt with a fresh
  salt). The result is the response, the store afterwards and the user id that
  \<^verbatim>\<open>req.login\<close> put in the session.
\<close>

definition register :: "(string \<Rightarrow> string) \<Rightarrow> string \<Rightarrow> timestamp \<Rightarrow> store
    \<Rightarrow> string option \<Rightarrow> string option \<Rightarrow> response \<times> store \<times> string option" where
  "register hash newId now st body_email body_password =
     (if falsy body_email \<or> falsy body_password
      then (Response 400 (message ''Email and password are required''), st, None)
      else
        (case (body_email, body_password) of
           (Some em, Some pw) \<Rightarrow>
             (case getUserByEmail st em of
                Some existingUser \<Rightarrow>
                  (Response 400 (message ''User with this email already exists''), st, None)
              | None \<Rightarrow>
                  (case createUser st em (hash pw) newId now of
                     None \<Rightarrow> (NextError, st, None)
                   | Some (u, st') \<Rightarrow> (Response 201 (userView u), st', Some (user_id u))))
         | _ \<Rightarrow> (Response 400 (message ''Email and password are required''), st, None)))"

text \<open>
  \<^verbatim>\<open>GET /api/user\<close>. \<open>req_user\<close> is \<^verbatim>\<open>req.user\<close>, the user the session
  resolved (\<^verbatim>\<open>deserializeUser\<close>), if any; \<^verbatim>\<open>req.isAuthenticated()\<close> says
  whether there is one.
\<close>

definition isAuthenticated :: "user option \<Rightarrow> bool" where
  "isAuthenticated req_user = (req_user \<noteq> None)"

definition get_user :: "user option \<Rightarrow> response" where
  "get_user req_user =
     (case req_user of
        None \<Rightarrow> SendStatus 401
      | Some u \<Rightarrow> Response 200 (userView u))"

text \<open>
  The two middlewares. \<open>None\<close> is \<^verbatim>\<open>next()\<close>: the request goes on to the handler.
\<close>

definition requireAuth :: "user option \<Rightarrow> response option" where
  "requireAuth req_user =
     (if \<not> isAuthenticated req_user
      then Some (Response 401 (message ''Authentication required''))
      else None)"

definition requireAdmin :: "user option \<Rightarrow> response option" where
  "requireAdmin req_user =
     (case req_user of
        None \<Rightarrow> Some (Response 403 (message ''Admin access required''))
      | Some u \<Rightarrow>
          if role u \<noteq> ADMIN
          then Some (Response 403 (message ''Admin access required''))
          else None)"

text \<open>
  The access levels of the routes: a route without a middleware is public
  (\<^verbatim>\<open>/api/register\<close>, \<^verbatim>\<open>/api/login\<close>), the others name
  \<^verbatim>\<open>requireAuth\<close> or \<^verbatim>\<open>requireAdmin\<close>. \<open>gate\<close> is the middleware a
  route of that level runs.
\<close>

datatype level = Public | Authenticated | Admin

fun gate :: "level \<Rightarrow> user option \<Rightarrow> response option" where
  "gate Public req_user = None"
| "gate Authenticated req_user = requireAuth req_user"
| "gate Admin req_user = requireAdmin req_user"

text \<open>
  The decision a middleware's outcome stands for in the error taxonomy: going on is
  \<open>Allowed\<close>, status 401 is \<open>Unauthenticated\<close> and status 403, the only other status
  a middleware sends, is \<open>Forbidden\<close>.
\<close>

datatype reason = Unauthenticated | Forbidden

datatype decision = Allowed | Denied reason

fun decision_of :: "response option \<Rightarrow> decision" where
  "decision_of None = Allowed"
| "decision_of (Some (Response n j)) = Denied (if n = 401 then Unauthenticated else Forbidden)"
| "decision_of (Some r) = Denied Forbidden"

definition authorize :: "user option \<Rightarrow> level \<Rightarrow> decision" where
  "authorize req_user requiredLevel = decision_of (gate requiredLevel req_user)"

text \<open>
  The decision table as the specification words it, to compare \<open>authorize\<close> with.
\<close>

fun authorize_spec :: "user option \<Rightarrow> level \<Rightarrow> decision" where
  "authorize_spec req_user Public = Allowed"
| "authorize_spec None Authenticated = Denied Unauthenticated"
| "authorize_spec (Some p) Authenticated = Allowed"
| "authorize_spec None Admin = Denied Unauthenticated"
| "authorize_spec (Some p) Admin = (if role p = ADMIN then Allowed else Denied Forbidden)"

section \<open>Validation of video input (shared/schema.ts)\<close>

text \<open>
  \<^verbatim>\<open>insertVideoSchema\<close> is \<^verbatim>\<open>createInsertSchema(videos)\<close> without
  \<^verbatim>\<open>id\<close>, \<^verbatim>\<open>createdAt\<close>, \<^verbatim>\<open>updatedAt\<close> and \<^verbatim>\<open>views\<close>. The
  library derives one validator per remaining column from its declaration: a
  \<^verbatim>\<open>text\<close> column is \<^verbatim>\<open>z.string()\<close>, a \<^verbatim>\<open>boolean\<close> column
  \<^verbatim>\<open>z.boolean()\<close>; a column without \<^verbatim>\<open>.notNull()\<close> also accepts
  \<^verbatim>\<open>null\<close>, and a column that is nullable or has a default may be left out.
  So \<^verbatim>\<open>title\<close> and \<^verbatim>\<open>sourceUrl\<close> are required strings (any string: the
  schema adds no length check) and the six other fields are optional and nullable.
  Parsing an object keeps the keys of the schema and drops every other key.

  A field of the parsed value is \<open>Undefined\<close> when the body left it out and \<open>Given x\<close>
  otherwise; a failed parse (\<^verbatim>\<open>ZodError\<close>) is \<open>None\<close>.
\<close>

datatype 'a supplied = Undefined | Given 'a

fun zString :: "json \<Rightarrow> string option" where
  "zString (JStr s) = Some s"
| "zString _ = None"

fun zBoolean :: "json \<Rightarrow> bool option" where
  "zBoolean (JBool b) = Some b"
| "zBoolean _ = None"

fun zNullable :: "(json \<Rightarrow> 'a option) \<Rightarrow> json \<Rightarrow> 'a option option" where
  "zNullable p JNull = Some None"
| "zNullable p j = map_option Some (p j)"

fun zOptional :: "(json \<Rightarrow> 'a option) \<Rightarrow> json option \<Rightarrow> 'a supplied option" where
  "zOptional p None = Some Undefined"
| "zOptional p (Some j) = map_option Given (p j)"

fun zRequired :: "(json \<Rightarrow> 'a option) \<Rightarrow> json option \<Rightarrow> 'a option" where
  "zRequired p None = None"
| "zRequired p (Some j) = p j"

record InsertVideo =
  ins_title :: string
  ins_description :: "string option supplied"
  ins_sourceUrl :: string
  ins_thumbnailUrl :: "string option supplied"
  ins_duration :: "string option supplied"
  ins_canPlay :: "bool option supplied"
  ins_canShare :: "bool option supplied"
  ins_canDownload :: "bool option supplied"

definition insertVideoSchema :: "body \<Rightarrow> InsertVideo option" where
  "insertVideoSchema b = do {
     t \<leftarrow> zRequired zString (b ''title'');
     d \<leftarrow> zOptional (zNullable zString) (b ''description'');
     s \<leftarrow> zRequired zString (b ''sourceUrl'');
     th \<leftarrow> zOptional (zNullable zString) (b ''thumbnailUrl'');
     du \<leftarrow> zOptional (zNullable zString) (b ''duration'');
     cp \<leftarrow> zOptional (zNullable zBoolean) (b ''canPlay'');
     cs \<leftarrow> zOptional (zNullable zBoolean) (b ''canShare'');
     cd \<leftarrow> zOptional (zNullable zBoolean) (b ''canDownload'');
     Some \<lparr>ins_title = t, ins_description = d, ins_sourceUrl = s, ins_thumbnailUrl = th,
           ins_duration = du, ins_canPlay = cp, ins_canShare = cs, ins_canDownload = cd\<rparr>
   }"

text \<open>\<^verbatim>\<open>updateVideoSchema = insertVideoSchema.partial()\<close>: every field may be left out.\<close>

record UpdateVideo =
  upd_title :: "string supplied"
  upd_description :: "string option supplied"
  upd_sourceUrl :: "string supplied"
  upd_thumbnailUrl :: "string option supplied"
  upd_duration :: "string option supplied"
  upd_canPlay :: "bool option supplied"
  upd_canShare :: "bool option supplied"
  upd_canDownload :: "bool option supplied"

definition updateVideoSchema :: "body \<Rightarrow> UpdateVideo option" where
  "updateVideoSchema b = do {
     t \<leftarrow> zOptional zString (b ''title'');
     d \<leftarrow> zOptional (zNullable zString) (b ''description'');
     s \<leftarrow> zOptional zString (b ''sourceUrl'');
     th \<leftarrow> zOptional (zNullable zString) (b ''thumbnailUrl'');
     du \<leftarrow> zOptional (zNullable zString) (b ''duration'');
     cp \<leftarrow> zOptional (zNullable zBoolean) (b ''canPlay'');
     cs \<leftarrow> zOptional (zNullable zBoolean) (b ''canShare'');
     cd \<leftarrow> zOptional (zNullable zBoolean) (b ''canDownload'');
     Some \<lparr>upd_title = t, upd_description = d, upd_sourceUrl = s, upd_thumbnailUrl = th,
           upd_duration = du, upd_canPlay = cp, upd_canShare = cs, upd_canDownload = cd\<rparr>
   }"

section \<open>Storage of videos (server/storage.ts)\<close>

text \<open>
  \<^verbatim>\<open>orderBy(desc(videos.createdAt))\<close>: newest first, rows without a timestamp
  before the others (PostgreSQL's place for \<^verbatim>\<open>NULL\<close> in a descending order); rows
  with the same timestamp stay in storage order.
\<close>

definition getVideos :: "store \<Rightarrow> video list" where
  "getVideos st = sort_key (\<lambda>v. map_option uminus (video_createdAt v)) (videos st)"

definition getVideo :: "store \<Rightarrow> string \<Rightarrow> video option" where
  "getVideo st i = find (\<lambda>v. video_id v = i) (videos st)"

text \<open>
  What an insert stores in a column: the value given, or the column's default when the
  field is \<^verbatim>\<open>undefined\<close>.
\<close>

fun column :: "'a \<Rightarrow> 'a supplied \<Rightarrow> 'a" where
  "column dflt Undefined = dflt"
| "column dflt (Given x) = x"

definition createVideo :: "store \<Rightarrow> InsertVideo \<Rightarrow> string \<Rightarrow> timestamp
    \<Rightarrow> (video \<times> store) option" where
  "createVideo st ins newId now =
     (if (\<exists>v \<in> set (videos st). video_id v = newId) then None
      else
        (let newVideo =
           \<lparr>video_id = newId,
            title = ins_title ins,
            description = column None (ins_description ins),
            sourceUrl = ins_sourceUrl ins,
            thumbnailUrl = column None (ins_thumbnailUrl ins),
            duration = column None (ins_duration ins),
            views = Some 0,
            canPlay = column (Some True) (ins_canPlay ins),
            canShare = column (Some True) (ins_canShare ins),
            canDownload = column (Some False) (ins_canDownload ins),
            video_createdAt = Some now,
            updatedAt = Some now\<rparr>
         in Some (newVideo, st\<lparr>videos := videos st @ [newVideo]\<rparr>)))"

text \<open>
  \<^verbatim>\<open>.set({ ...video, updatedAt: new Date() })\<close>: the query builder writes the keys
  whose value is not \<^verbatim>\<open>undefined\<close> and leaves the other columns as they are.
\<close>

fun setColumn :: "'a supplied \<Rightarrow> 'a \<Rightarrow> 'a" where
  "setColumn Undefined old = old"
| "setColumn (Given x) old = x"

definition setVideo :: "UpdateVideo \<Rightarrow> timestamp \<Rightarrow> video \<Rightarrow> video" where
  "setVideo upd now v =
     v\<lparr>title := setColumn (upd_title upd) (title v),
       description := setColumn (upd_description upd) (description v),
       sourceUrl := setColumn (upd_sourceUrl upd) (sourceUrl v),
       thumbnailUrl := setColumn (upd_thumbnailUrl upd) (thumbnailUrl v),
       duration := setColumn (upd_duration upd) (duration v),
       canPlay := setColumn (upd_canPlay upd) (canPlay v),
       canShare := setColumn (upd_canShare upd) (canShare v),
       canDownload := setColumn (upd_canDownload upd) (canDownload v),
       updatedAt := Some now\<rparr>"

definition updateVideo :: "store \<Rightarrow> string \<Rightarrow> UpdateVideo \<Rightarrow> timestamp
    \<Rightarrow> video option \<times> store" where
  "updateVideo st i upd now =
     (let vs = map (\<lambda>v. if video_id v = i then setVideo upd now v else v) (videos st)
      in (find (\<lambda>v. video_id v = i) vs, st\<lparr>videos := vs\<rparr>))"

definition deleteVideo :: "store \<Rightarrow> string \<Rightarrow> bool \<times> store" where
  "deleteVideo st i =
     (0 < length (filter (\<lambda>v. video_id v = i) (videos st)),
      st\<lparr>videos := filter (\<lambda>v. video_id v \<noteq> i) (videos st)\<rparr>)"

text \<open>
  \<^verbatim>\<open>.set({ views: sql`${videos.views} + 1` })\<close>: the sum is computed by the
  database, where \<^verbatim>\<open>NULL + 1\<close> is \<^verbatim>\<open>NULL\<close>.
\<close>

definition incrementVideoViews :: "store \<Rightarrow> string \<Rightarrow> store" where
  "incrementVideoViews st i =
     st\<lparr>videos :=
        map (\<lambda>v. if video_id v = i then v\<lparr>views := map_option (\<lambda>n. n + 1) (views v)\<rparr> else v)
          (videos st)\<rparr>"

section \<open>Routes (registerRoutes)\<close>

text \<open>
  JavaScript's \<^verbatim>\<open>video.views || 0\<close> on a nullable number (\<^verbatim>\<open>null\<close> and
  \<^verbatim>\<open>0\<close> both give \<^verbatim>\<open>0\<close>) and \<^verbatim>\<open>!video.canDownload\<close> on a nullable
  boolean (\<^verbatim>\<open>null\<close> counts as \<^verbatim>\<open>false\<close>).
\<close>

fun orZero :: "int option \<Rightarrow> int" where
  "orZero None = 0"
| "orZero (Some n) = (if n = 0 then 0 else n)"

fun truthy :: "bool option \<Rightarrow> bool" where
  "truthy None = False"
| "truthy (Some b) = b"

text \<open>The object literal of \<^verbatim>\<open>GET /api/videos\<close>, built for every video of the list.\<close>

definition publicVideo :: "video \<Rightarrow> json" where
  "publicVideo v = JObj
     [(''id'', JStr (video_id v)),
      (''title'', JStr (title v)),
      (''description'', jnullable JStr (description v)),
      (''thumbnailUrl'', jnullable JStr (thumbnailUrl v)),
      (''duration'', jnullable JStr (duration v)),
      (''views'', jnullable JNum (views v)),
      (''canPlay'', jnullable JBool (canPlay v)),
      (''canShare'', jnullable JBool (canShare v)),
      (''canDownload'', jnullable JBool (canDownload v)),
      (''createdAt'', jnullable JNum (video_createdAt v))]"

definition get_videos :: "user option \<Rightarrow> store \<Rightarrow> response" where
  "get_videos req_user st =
     (case requireAuth req_user of
        Some rejection \<Rightarrow> rejection
      | None \<Rightarrow> Response 200 (JArr (map publicVideo (getVideos st))))"

text \<open>
  The object literal of \<^verbatim>\<open>GET /api/videos/:id\<close>. The handler read the video
  before the increment, so it sends \<^verbatim>\<open>(video.views || 0) + 1\<close>.
\<close>

definition detailedVideo :: "video \<Rightarrow> json" where
  "detailedVideo v = JObj
     [(''id'', JStr (video_id v)),
      (''title'', JStr (title v)),
      (''description'', jnullable JStr (description v)),
      (''sourceUrl'', JStr (sourceUrl v)),
      (''thumbnailUrl'', jnullable JStr (thumbnailUrl v)),
      (''duration'', jnullable JStr (duration v)),
      (''views'', JNum (orZero (views v) + 1)),
      (''canPlay'', jnullable JBool (canPlay v)),
      (''canShare'', jnullable JBool (canShare v)),
      (''canDownload'', jnullable JBool (canDownload v)),
      (''createdAt'', jnullable JNum (video_createdAt v))]"

definition get_video :: "user option \<Rightarrow> string \<Rightarrow> store \<Rightarrow> response \<times> store" where
  "get_video req_user i st =
     (case requireAuth req_user of
        Some rejection \<Rightarrow> (rejection, st)
      | None \<Rightarrow>
          (case getVideo st i of
             None \<Rightarrow> (Response 404 (message ''Video not found''), st)
           | Some v \<Rightarrow> (Response 200 (detailedVideo v), incrementVideoViews st (video_id v))))"

definition get_video_download :: "user option \<Rightarrow> string \<Rightarrow> store \<Rightarrow> response" where
  "get_video_download req_user i st =
     (case requireAuth req_user of
        Some rejection \<Rightarrow> rejection
      | None \<Rightarrow>
          (case getVideo st i of
             None \<Rightarrow> Response 404 (message ''Video not found'')
           | Some v \<Rightarrow>
               if \<not> truthy (canDownload v)
               then Response 403 (message ''Download not allowed for this video'')
               else Redirect (sourceUrl v)))"

text \<open>
  The admin routes send the stored rows as they are (\<^verbatim>\<open>res.json(video)\<close>): every
  column, under its name.
\<close>

definition adminVideo :: "video \<Rightarrow> json" where
  "adminVideo v = JObj
     [(''id'', JStr (video_id v)),
      (''title'', JStr (title v)),
      (''description'', jnullable JStr (description v)),
      (''sourceUrl'', JStr (sourceUrl v)),
      (''thumbnailUrl'', jnullable JStr (thumbnailUrl v)),
      (''duration'', jnullable JStr (duration v)),
      (''views'', jnullable JNum (views v)),
      (''canPlay'', jnullable JBool (canPlay v)),
      (''canShare'', jnullable JBool (canShare v)),
      (''canDownload'', jnullable JBool (canDownload v)),
      (''createdAt'', jnullable JNum (video_createdAt v)),
      (''updatedAt'', jnullable JNum (updatedAt v))]"

definition get_admin_videos :: "user option \<Rightarrow> store \<Rightarrow> response" where
  "get_admin_videos req_user st =
     (case requireAdmin req_user of
        Some rejection \<Rightarrow> rejection
      | None \<Rightarrow> Response 200 (JArr (map adminVideo (getVideos st))))"

text \<open>
  The answer to a \<^verbatim>\<open>ZodError\<close>; the list of issues under \<^verbatim>\<open>errors\<close> is left
  empty here.
\<close>

definition invalidVideoData :: json where
  "invalidVideoData = JObj [(''message'', JStr ''Invalid video data''), (''errors'', JArr [])]"

definition post_admin_videos :: "user option \<Rightarrow> body \<Rightarrow> string \<Rightarrow> timestamp \<Rightarrow> store
    \<Rightarrow> response \<times> store" where
  "post_admin_videos req_user b newId now st =
     (case requireAdmin req_user of
        Some rejection \<Rightarrow> (rejection, st)
      | None \<Rightarrow>
          (case insertVideoSchema b of
             None \<Rightarrow> (Response 400 invalidVideoData, st)
           | Some videoData \<Rightarrow>
               (case createVideo st videoData newId now of
                  None \<Rightarrow> (NextError, st)
                | Some (v, st') \<Rightarrow> (Response 201 (adminVideo v), st'))))"

definition put_admin_videos :: "user option \<Rightarrow> string \<Rightarrow> body \<Rightarrow> timestamp \<Rightarrow> store
    \<Rightarrow> response \<times> store" where
  "put_admin_videos req_user i b now st =
     (case requireAdmin req_user of
        Some rejection \<Rightarrow> (rejection, st)
      | None \<Rightarrow>
          (case updateVideoSchema b of
             None \<Rightarrow> (Response 400 invalidVideoData, st)
           | Some videoData \<Rightarrow>
               (case updateVideo st i videoData now of
                  (None, st') \<Rightarrow> (Response 404 (message ''Video not found''), st')
                | (Some v, st') \<Rightarrow> (Response 200 (adminVideo v), st'))))"

definition delete_admin_videos :: "user option \<Rightarrow> string \<Rightarrow> store \<Rightarrow> response \<times> store" where
  "delete_admin_videos req_user i st =
     (case requireAdmin req_user of
        Some rejection \<Rightarrow> (rejection, st)
      | None \<Rightarrow>
          (case deleteVideo st i of
             (False, st') \<Rightarrow> (Response 404 (message ''Video not found''), st')
           | (True, st') \<Rightarrow> (SendStatus 204, st')))"

text \<open>
  \<^verbatim>\<open>GET /api/admin/stats\<close>. \<^verbatim>\<open>videos.reduce\<close> is a left fold from 0; the
  number of users is the literal of the source.
\<close>

definition totalViews :: "video list \<Rightarrow> int" where
  "totalViews vs = foldl (\<lambda>sum v. sum + orZero (views v)) 0 vs"

definition get_admin_stats :: "user option \<Rightarrow> store \<Rightarrow> response" where
  "get_admin_stats req_user st =
     (case requireAdmin req_user of
        Some rejection \<Rightarrow> rejection
      | None \<Rightarrow>
          (let vs = getVideos st
           in Response 200 (JObj
                [(''totalVideos'', JNum (int (length vs))),
                 (''totalUsers'', JNum 1249),
                 (''totalViews'', JNum (totalViews vs))])))"

section \<open>Stores the routes produce\<close>

text \<open>
  Every stored video has a view count: no \<^verbatim>\<open>NULL\<close> in the column.
\<close>

definition views_counted :: "store \<Rightarrow> bool" where
  "views_counted st = list_all (\<lambda>v. views v \<noteq> None) (videos st)"

text \<open>
  The stores that the routes lead to from a catalog without videos. The table of users
  may change in any way (registration, avatars, a change of role made outside the
  application); the table of videos changes through the routes only.
\<close>

inductive reachable :: "store \<Rightarrow> bool" where
  start: "videos st = [] \<Longrightarrow> reachable st"
| accounts: "reachable st \<Longrightarrow> reachable (st\<lparr>users := us\<rparr>)"
| created: "reachable st \<Longrightarrow> reachable (snd (post_admin_videos req_user b newId now st))"
| updated: "reachable st \<Longrightarrow> reachable (snd (put_admin_videos req_user i b now st))"
| deleted: "reachable st \<Longrightarrow> reachable (snd (delete_admin_videos req_user i st))"
| viewed: "reachable st \<Longrightarrow> reachable (snd (get_video req_user i st))"

section \<open>The access control gate\<close>

text \<open>
  The middlewares agree with the specification's table everywhere but at one entry: an
  anonymous request to an admin route.
\<close>

lemma authorize_agrees_elsewhere:
  "(req_user, requiredLevel) \<noteq> (None, Admin)
   \<Longrightarrow> authorize req_user requiredLevel = authorize_spec req_user requiredLevel"
  by (cases requiredLevel; cases req_user)
     (simp_all add: authorize_def requireAuth_def requireAdmin_def isAuthenticated_def)

text \<open>
  C2 as stated fails: \<^verbatim>\<open>requireAdmin\<close> answers an anonymous request with 403 and
  ``Admin access required'', the answer it gives a user of the wrong role, and not with the
  401 of \<^verbatim>\<open>requireAuth\<close>. The table of the specification says
  \<open>Denied Unauthenticated\<close> there.
\<close>

theorem authorize_admin_anonymous_counterexample:
  "authorize None Admin \<noteq> authorize_spec None Admin
   \<and> authorize None Admin = Denied Forbidden
   \<and> requireAdmin None = Some (Response 403 (message ''Admin access required''))
   \<and> requireAuth None = Some (Response 401 (message ''Authentication required''))"
  by (simp add: authorize_def requireAdmin_def requireAuth_def isAuthenticated_def)

text \<open>
  C2, amended: for every principal state and required level the gate decides as follows.
  Public is always allowed. Authenticated is allowed iff a principal is present, else
  denied as unauthenticated. Admin is allowed iff a principal is present with role ADMIN,
  else denied as forbidden, whether the principal is absent or has the wrong role.
\<close>

theorem authorize_table:
  "authorize req_user Public = Allowed
   \<and> authorize req_user Authenticated =
       (case req_user of None \<Rightarrow> Denied Unauthenticated | Some p \<Rightarrow> Allowed)
   \<and> authorize req_user Admin =
       (case req_user of
          None \<Rightarrow> Denied Forbidden
        | Some p \<Rightarrow> if role p = ADMIN then Allowed else Denied Forbidden)"
  by (simp add: authorize_def requireAuth_def requireAdmin_def isAuthenticated_def
      split: option.split)

section \<open>The identity verifier\<close>

text \<open>
  When both credentials are strings, an attempt with an email that matches no stored
  user and one with the email of a stored user whose password does not verify end in the
  same value, \<^verbatim>\<open>done(null, false)\<close>, and the two login requests get the same
  response, a bare 401.
\<close>

lemma verify_failure_uniform_on_strings:
  assumes "getUserByEmail st e1 = None"
    and "getUserByEmail st e2 = Some u"
    and "\<not> cmp p2 (password u)"
  shows "verify cmp drv st (JStr e1) (JStr p1) = DoneFalse"
    and "verify cmp drv st (JStr e2) (JStr p2) = DoneFalse"
    and "e1 \<noteq> [] \<Longrightarrow> p1 \<noteq> []
      \<Longrightarrow> login cmp drv st (Some (JStr e1)) (Some (JStr p1)) = (SendStatus 401, None)"
    and "e2 \<noteq> [] \<Longrightarrow> p2 \<noteq> []
      \<Longrightarrow> login cmp drv st (Some (JStr e2)) (Some (JStr p2)) = (SendStatus 401, None)"
  using assms by (simp_all add: verify_def login_def)

text \<open>
  A password that is not a string tells the two attempts apart: for an email that is not
  stored the callback stops at the lookup and reports \<^verbatim>\<open>false\<close>; for a stored
  email it goes on to the comparison, which rejects the value, and reports the error.
\<close>

lemma verify_non_string_password:
  assumes "\<nexists>s. pw = JStr s"
  shows "getUserByEmail st em = None \<Longrightarrow> verify cmp drv st (JStr em) pw = DoneFalse"
    and "getUserByEmail st em = Some u \<Longrightarrow> verify cmp drv st (JStr em) pw = DoneError"
  using assms by (cases pw; simp add: verify_def)+

text \<open>
  C8 at a store with one user and two login requests with the password 123, a number:
  the request that names the stored email ends in the error handler, the request that
  names an unknown email gets the 401 of a failed login.
\<close>

theorem login_non_string_password_tells_emails_apart:
  "(let st = \<lparr>users = [\<lparr>user_id = ''u1'', email = ''a@x.org'', password = ''h1'',
                         avatarUrl = None, role = USER, user_createdAt = Some 1000\<rparr>],
              videos = []\<rparr>;
        cmp = (\<lambda>supplied stored. stored = ''h'' @ supplied);
        drv = (\<lambda>j. None)
    in getUserByEmail st ''b@x.org'' = None
     \<and> getUserByEmail st ''a@x.org'' \<noteq> None
     \<and> verify cmp drv st (JStr ''b@x.org'') (JNum 123) = DoneFalse
     \<and> verify cmp drv st (JStr ''a@x.org'') (JNum 123) = DoneError
     \<and> login cmp drv st (Some (JStr ''b@x.org'')) (Some (JNum 123)) = (SendStatus 401, None)
     \<and> login cmp drv st (Some (JStr ''a@x.org'')) (Some (JNum 123)) = (NextError, None))"
  by (simp add: getUserByEmail_def verify_def login_def Let_def)

text \<open>
  C9 as stated fails: registering a stored email with an empty password is turned away
  by the first guard of the handler, with ``Email and password are required'', before
  the handler looks the email up; the failure is not the one for a taken email.
\<close>

theorem register_empty_password_counterexample:
  "(let st = \<lparr>users = [\<lparr>user_id = ''u1'', email = ''a@x.org'', password = ''h1'',
                         avatarUrl = None, role = USER, user_createdAt = Some 1000\<rparr>],
              videos = []\<rparr>
    in getUserByEmail st ''a@x.org'' \<noteq> None
     \<and> fst (register (\<lambda>pw. ''h'' @ pw) ''u2'' 2000 st (Some ''a@x.org'') (Some []))
         = Response 400 (message ''Email and password are required'')
     \<and> fst (register (\<lambda>pw. ''h'' @ pw) ''u2'' 2000 st (Some ''a@x.org'') (Some []))
         \<noteq> Response 400 (message ''User with this email already exists''))"
  by (simp add: getUserByEmail_def register_def message_def)

text \<open>
  C9, amended: for every store with a user of the given email, registering with that
  email fails, creates no user, opens no session and leaves the store, so every field of
  every user, as it was. The failure is ``User with this email already exists'' when
  email and password are both non-empty, and ``Email and password are required'' when
  one of them is empty or missing.
\<close>

theorem register_existing_email:
  assumes "getUserByEmail st em = Some u"
  shows "register hash newId now st (Some em) body_password =
     (if em = [] \<or> falsy body_password
      then Response 400 (message ''Email and password are required'')
      else Response 400 (message ''User with this email already exists''),
      st, None)"
  using assms by (cases body_password) (simp_all add: register_def)

text \<open>The theorem at a store with one user and a second registration of her email.\<close>

theorem register_existing_email_witness:
  "(let st = \<lparr>users = [\<lparr>user_id = ''u1'', email = ''a@x.org'', password = ''h1'',
                         avatarUrl = None, role = USER, user_createdAt = Some 1000\<rparr>],
              videos = []\<rparr>
    in getUserByEmail st ''a@x.org'' \<noteq> None
     \<and> register (\<lambda>pw. ''h'' @ pw) ''u2'' 2000 st (Some ''a@x.org'') (Some ''2'')
         = (Response 400 (message ''User with this email already exists''), st, None))"
  using register_existing_email
    [where st = "\<lparr>users = [\<lparr>user_id = ''u1'', email = ''a@x.org'', password = ''h1'',
                         avatarUrl = None, role = USER, user_createdAt = Some 1000\<rparr>],
              videos = []\<rparr>"
       and em = "''a@x.org''"
       and u = "\<lparr>user_id = ''u1'', email = ''a@x.org'', password = ''h1'',
                         avatarUrl = None, role = USER, user_createdAt = Some 1000\<rparr>"
       and hash = "\<lambda>pw. ''h'' @ pw" and newId = "''u2''" and now = 2000
       and body_password = "Some ''2''"]
  by (simp add: getUserByEmail_def Let_def)

lemma getUserByEmail_stored: "getUserByEmail st em = Some u \<Longrightarrow> u \<in> set (users st) \<and> email u = em"
  by (auto simp: getUserByEmail_def find_Some_iff)

lemma getUserByEmail_unknown: "getUserByEmail st em = None \<Longrightarrow> \<forall>u \<in> set (users st). email u \<noteq> em"
  by (auto simp: getUserByEmail_def find_None_iff)

lemma verify_DoneUser:
  assumes "verify cmp drv st e pw = DoneUser u"
  shows "u \<in> set (users st) \<and> emailParam drv e = Some (email u)
    \<and> (\<exists>s. pw = JStr s \<and> cmp s (password u))"
proof -
  from assms obtain em where em: "emailParam drv e = Some em"
    by (auto simp: verify_def split: option.splits)
  with assms obtain w where w: "getUserByEmail st em = Some w"
    by (auto simp: verify_def split: option.splits)
  with assms em obtain s where s: "pw = JStr s"
    by (cases pw) (auto simp: verify_def)
  with assms em w have "w = u" and "cmp s (password u)"
    by (auto simp: verify_def split: if_splits)
  with getUserByEmail_stored [OF w] em s show ?thesis by auto
qed

text \<open>
  C10: the object that register, login and the session lookup send for a user holds the
  user's id, email, avatarUrl, role and createdAt under these five keys and nothing
  else, and is the same whatever the stored password is. The session lookup sends it for
  the user of the session. A login sends a body only on success, and then this object
  for a stored user, the one whose email and password were given; a login with the
  email and the password of a stored user does succeed. A registration sends this
  object for the user it has just stored, or an error message; a registration with a
  new email, a password and a fresh id does store the user, with the hashed password,
  and sends the object. No body of the three routes has a key \<^verbatim>\<open>password\<close>.
\<close>

theorem user_responses_project_five_fields:
  "userView u = JObj
     [(''id'', JStr (user_id u)),
      (''email'', JStr (email u)),
      (''avatarUrl'', jnullable JStr (avatarUrl u)),
      (''role'', JStr (role_str (role u))),
      (''createdAt'', jnullable JNum (user_createdAt u))]
   \<and> userView (u\<lparr>password := h\<rparr>) = userView u
   \<and> get_user (Some u) = Response 200 (userView u)
   \<and> get_user None = SendStatus 401
   \<and> (\<forall>n j. fst (login cmp drv st body_email body_password) = Response n j
        \<longrightarrow> n = 200 \<and> (\<exists>w \<in> set (users st). j = userView w
              \<and> (\<exists>e. body_email = Some e \<and> emailParam drv e = Some (email w))
              \<and> (\<exists>s. body_password = Some (JStr s) \<and> cmp s (password w))))
   \<and> (getUserByEmail st em = Some u \<and> cmp pw (password u) \<and> em \<noteq> [] \<and> pw \<noteq> []
        \<longrightarrow> login cmp drv st (Some (JStr em)) (Some (JStr pw))
              = (Response 200 (userView u), Some (user_id u)))
   \<and> (\<forall>n j. fst (register hash newId now st reg_email reg_password) = Response n j
        \<longrightarrow> n = 400 \<and> j = message ''Email and password are required''
          \<or> n = 400 \<and> j = message ''User with this email already exists''
          \<or> n = 201 \<and> (\<exists>em' pw'. reg_email = Some em' \<and> reg_password = Some pw'
               \<and> j = userView \<lparr>user_id = newId, email = em', password = hash pw',
                                avatarUrl = None, role = USER, user_createdAt = Some now\<rparr>))
   \<and> (em2 \<noteq> [] \<and> pw2 \<noteq> [] \<and> getUserByEmail st em2 = None
        \<and> newId \<notin> user_id ` set (users st)
        \<longrightarrow> register hash newId now st (Some em2) (Some pw2)
              = (Response 201 (userView \<lparr>user_id = newId, email = em2, password = hash pw2,
                                avatarUrl = None, role = USER, user_createdAt = Some now\<rparr>),
                 st\<lparr>users := users st @
                   [\<lparr>user_id = newId, email = em2, password = hash pw2,
                     avatarUrl = None, role = USER, user_createdAt = Some now\<rparr>]\<rparr>,
                 Some newId))
   \<and> ''password'' \<notin> set (response_keys (get_user req_user))
   \<and> ''password'' \<notin> set (response_keys (fst (login cmp drv st body_email body_password)))
   \<and> ''password'' \<notin> set (response_keys (fst (register hash newId now st reg_email reg_password)))"
proof -
  have keys: "''password'' \<notin> set (response_keys (get_user req_user))"
    "''password'' \<notin> set (response_keys (fst (login cmp drv st body_email body_password)))"
    "''password'' \<notin> set (response_keys (fst (register hash newId now st reg_email reg_password)))"
    by (auto simp: register_def login_def get_user_def userView_def message_def createUser_def
        Let_def split: option.splits if_splits verdict.splits prod.splits)
  have login_body: "n = 200 \<and> (\<exists>w \<in> set (users st). j = userView w
              \<and> (\<exists>e. body_email = Some e \<and> emailParam drv e = Some (email w))
              \<and> (\<exists>s. body_password = Some (JStr s) \<and> cmp s (password w)))"
    if "fst (login cmp drv st body_email body_password) = Response n j" for n j
  proof -
    from that obtain e pw w where fields: "body_email = Some e" "body_password = Some pw"
      and verified: "verify cmp drv st e pw = DoneUser w" and sent: "n = 200" "j = userView w"
      by (auto simp: login_def split: option.splits if_splits verdict.splits)
    from verify_DoneUser [OF verified] fields sent show ?thesis by auto
  qed
  have login_ok: "login cmp drv st (Some (JStr em)) (Some (JStr pw))
      = (Response 200 (userView u), Some (user_id u))"
    if "getUserByEmail st em = Some u" "cmp pw (password u)" "em \<noteq> []" "pw \<noteq> []"
    using that by (simp add: login_def verify_def)
  have register_body: "n = 400 \<and> j = message ''Email and password are required''
          \<or> n = 400 \<and> j = message ''User with this email already exists''
          \<or> n = 201 \<and> (\<exists>em' pw'. reg_email = Some em' \<and> reg_password = Some pw'
               \<and> j = userView \<lparr>user_id = newId, email = em', password = hash pw',
                                avatarUrl = None, role = USER, user_createdAt = Some now\<rparr>)"
    if "fst (register hash newId now st reg_email reg_password) = Response n j" for n j
    using that
    by (auto simp: register_def createUser_def Let_def
        split: option.splits if_splits prod.splits)
  have register_ok: "register hash newId now st (Some em2) (Some pw2)
              = (Response 201 (userView \<lparr>user_id = newId, email = em2, password = hash pw2,
                                avatarUrl = None, role = USER, user_createdAt = Some now\<rparr>),
                 st\<lparr>users := users st @
                   [\<lparr>user_id = newId, email = em2, password = hash pw2,
                     avatarUrl = None, role = USER, user_createdAt = Some now\<rparr>]\<rparr>,
                 Some newId)"
    if "em2 \<noteq> []" "pw2 \<noteq> []" "getUserByEmail st em2 = None"
      "newId \<notin> user_id ` set (users st)"
  proof -
    from getUserByEmail_unknown [OF that(3)] that(4)
    have "\<not> (\<exists>w \<in> set (users st). email w = em2 \<or> user_id w = newId)" by auto
    with that show ?thesis
      by (simp add: register_def createUser_def Let_def)
  qed
  have view: "userView u = JObj
     [(''id'', JStr (user_id u)),
      (''email'', JStr (email u)),
      (''avatarUrl'', jnullable JStr (avatarUrl u)),
      (''role'', JStr (role_str (role u))),
      (''createdAt'', jnullable JNum (user_createdAt u))]"
    and same: "userView (u\<lparr>password := h\<rparr>) = userView u"
    and session: "get_user (Some u) = Response 200 (userView u)" "get_user None = SendStatus 401"
    by (simp_all add: userView_def get_user_def)
  from view same session login_body login_ok register_body register_ok keys
  show ?thesis by blast
qed

text \<open>
  The theorem at a store with one user: her login sends her five fields and not her
  stored hash, and a registration of a second user stores the hash and sends the five
  fields of the new user.
\<close>

theorem user_responses_project_five_fields_witness:
  "(let alice = \<lparr>user_id = ''u1'', email = ''a@x.org'', password = ''h1'',
                 avatarUrl = None, role = USER, user_createdAt = Some 1000\<rparr>;
        st = \<lparr>users = [alice], videos = []\<rparr>;
        cmp = (\<lambda>supplied stored. stored = ''h'' @ supplied);
        hash = (\<lambda>pw. ''h'' @ pw)
    in login cmp (\<lambda>j. None) st (Some (JStr ''a@x.org'')) (Some (JStr ''1''))
         = (Response 200 (JObj [(''id'', JStr ''u1''), (''email'', JStr ''a@x.org''),
              (''avatarUrl'', JNull), (''role'', JStr ''USER''), (''createdAt'', JNum 1000)]),
            Some ''u1'')
     \<and> register hash ''u2'' 2000 st (Some ''b@x.org'') (Some ''2'')
         = (Response 201 (JObj [(''id'', JStr ''u2''), (''email'', JStr ''b@x.org''),
              (''avatarUrl'', JNull), (''role'', JStr ''USER''), (''createdAt'', JNum 2000)]),
            st\<lparr>users := [alice, \<lparr>user_id = ''u2'', email = ''b@x.org'', password = ''h2'',
                 avatarUrl = None, role = USER, user_createdAt = Some 2000\<rparr>]\<rparr>,
            Some ''u2'')
     \<and> get_user (Some alice)
         = Response 200 (JObj [(''id'', JStr ''u1''), (''email'', JStr ''a@x.org''),
              (''avatarUrl'', JNull), (''role'', JStr ''USER''), (''createdAt'', JNum 1000)]))"
  using user_responses_project_five_fields
    [where u = "\<lparr>user_id = ''u1'', email = ''a@x.org'', password = ''h1'',
                 avatarUrl = None, role = USER, user_createdAt = Some 1000\<rparr>"
       and st = "\<lparr>users = [\<lparr>user_id = ''u1'', email = ''a@x.org'', password = ''h1'',
                 avatarUrl = None, role = USER, user_createdAt = Some 1000\<rparr>], videos = []\<rparr>"
       and cmp = "\<lambda>supplied stored. stored = ''h'' @ supplied"
       and drv = "\<lambda>j. None"
       and hash = "\<lambda>pw. ''h'' @ pw"
       and em = "''a@x.org''" and pw = "''1''"
       and body_email = "Some (JStr ''a@x.org'')" and body_password = "Some (JStr ''1'')"
       and ?em2.0 = "''b@x.org''" and ?pw2.0 = "''2''"
       and reg_email = "Some ''b@x.org''" and reg_password = "Some ''2''"
       and newId = "''u2''" and now = 2000]
  by (simp add: login_def verify_def register_def createUser_def getUserByEmail_def
      userView_def get_user_def Let_def)

section \<open>Facts about the storage operations\<close>

lemma foldl_plus:
  "foldl (\<lambda>sum v. sum + f v) a vs = a + sum_list (map f vs)" for a :: int
  by (induction vs arbitrary: a) simp_all

lemma totalViews_sum_list: "totalViews vs = sum_list (map (\<lambda>v. orZero (views v)) vs)"
  by (simp add: totalViews_def foldl_plus)

lemma sum_list_insort_key:
  "sum_list (map f (insort_key k x xs)) = f x + sum_list (map f xs)" for f :: "'a \<Rightarrow> int"
  by (induction xs) simp_all

lemma sum_list_sort_key:
  "sum_list (map f (sort_key k xs)) = sum_list (map f xs)" for f :: "'a \<Rightarrow> int"
  by (induction xs) (simp_all add: sum_list_insort_key)

lemma insort_key_map_same:
  "(\<And>y. k (g y) = k y) \<Longrightarrow> insort_key k (g x) (map g xs) = map g (insort_key k x xs)"
  by (induction xs) simp_all

lemma sort_key_map_same:
  "(\<And>y. k (g y) = k y) \<Longrightarrow> sort_key k (map g xs) = map g (sort_key k xs)"
  by (induction xs) (simp_all add: insort_key_map_same)

lemma getVideos_map:
  assumes "\<And>v. video_createdAt (g v) = video_createdAt v"
  shows "getVideos (st\<lparr>videos := map g (videos st)\<rparr>) = map g (getVideos st)"
  using assms by (simp add: getVideos_def sort_key_map_same)

lemma length_getVideos: "length (getVideos st) = length (videos st)"
  by (simp add: getVideos_def)

lemma totalViews_getVideos: "totalViews (getVideos st) = totalViews (videos st)"
  by (simp add: getVideos_def totalViews_sum_list sum_list_sort_key)

lemma requireAuth_Some [simp]: "requireAuth (Some p) = None"
  by (simp add: requireAuth_def isAuthenticated_def)

lemma requireAdmin_admin: "role p = ADMIN \<Longrightarrow> requireAdmin (Some p) = None"
  by (simp add: requireAdmin_def)




lemma orZero_Some [simp]: "orZero (Some n) = n"
  by simp

section \<open>The video projections\<close>

text \<open>
  C1: for every store and every principal, present or not and of either role, no object
  of the list that \<^verbatim>\<open>GET /api/videos\<close> sends has a key \<^verbatim>\<open>sourceUrl\<close> (nor
  has the 401 that an anonymous request gets), and the response stays the same when the
  source locators of the stored videos are replaced by any others.
\<close>

theorem list_hides_sourceUrl:
  "''sourceUrl'' \<notin> set (response_keys (get_videos req_user st))
   \<and> get_videos req_user (st\<lparr>videos := map (\<lambda>v. v\<lparr>sourceUrl := f v\<rparr>) (videos st)\<rparr>)
       = get_videos req_user st"
proof -
  have keys: "keys_of (publicVideo v) =
      [''id'', ''title'', ''description'', ''thumbnailUrl'', ''duration'', ''views'',
       ''canPlay'', ''canShare'', ''canDownload'', ''createdAt'']" for v
    by (simp add: publicVideo_def)
  have "''sourceUrl'' \<notin> set (keys_of (JArr (map publicVideo vs)))" for vs
    by (induction vs) (simp_all add: keys)
  moreover have "''sourceUrl'' \<notin> set (keys_of (message m))" for m
    by (simp add: message_def)
  ultimately have hidden: "''sourceUrl'' \<notin> set (response_keys (get_videos req_user st))"
    by (simp add: get_videos_def requireAuth_def split: option.split)
  have same: "publicVideo (v\<lparr>sourceUrl := u\<rparr>) = publicVideo v" for v u
    by (simp add: publicVideo_def)
  have "map publicVideo (getVideos (st\<lparr>videos := map (\<lambda>v. v\<lparr>sourceUrl := f v\<rparr>) (videos st)\<rparr>))
      = map publicVideo (getVideos st)"
    by (simp add: getVideos_map same comp_def)
  then have "get_videos req_user (st\<lparr>videos := map (\<lambda>v. v\<lparr>sourceUrl := f v\<rparr>) (videos st)\<rparr>)
      = get_videos req_user st"
    by (simp add: get_videos_def split: option.split)
  with hidden show ?thesis by simp
qed

text \<open>
  C3: for a stored video and any principal, the download route redirects to the source
  iff the video's \<^verbatim>\<open>canDownload\<close> is true and answers 403 otherwise; the role of the
  principal plays no part, so an admin gets the answer any other user gets.
\<close>

theorem download_iff_canDownload:
  assumes "getVideo st i = Some v"
  shows "get_video_download (Some p) i st =
      (if canDownload v = Some True then Redirect (sourceUrl v)
       else Response 403 (message ''Download not allowed for this video''))
    \<and> get_video_download (Some p) i st = get_video_download (Some q) i st"
proof -
  have "truthy (canDownload v) = (canDownload v = Some True)"
    by (cases "canDownload v") simp_all
  with assms show ?thesis
    by (simp add: get_video_download_def)
qed

text \<open>
  The theorem at a video whose \<^verbatim>\<open>canDownload\<close> is false, asked for by an admin: 403.
\<close>

theorem download_iff_canDownload_witness:
  "(let v = \<lparr>video_id = ''v1'', title = ''T'', description = None, sourceUrl = ''http://x'',
             thumbnailUrl = None, duration = None, views = Some 0, canPlay = Some True,
             canShare = Some True, canDownload = Some False, video_createdAt = Some 1,
             updatedAt = Some 1\<rparr>;
        admin = \<lparr>user_id = ''u1'', email = ''a@x.org'', password = ''h1'', avatarUrl = None,
                 role = ADMIN, user_createdAt = Some 1000\<rparr>;
        st = \<lparr>users = [admin], videos = [v]\<rparr>
    in getVideo st ''v1'' = Some v
     \<and> get_video_download (Some admin) ''v1'' st
         = Response 403 (message ''Download not allowed for this video'')
     \<and> get_video_download (Some admin) ''v1'' (st\<lparr>videos := [v\<lparr>canDownload := Some True\<rparr>]\<rparr>)
         = Redirect ''http://x'')"
  using download_iff_canDownload
    [where st = "\<lparr>users = [\<lparr>user_id = ''u1'', email = ''a@x.org'', password = ''h1'',
                 avatarUrl = None, role = ADMIN, user_createdAt = Some 1000\<rparr>],
              videos = [\<lparr>video_id = ''v1'', title = ''T'', description = None,
             sourceUrl = ''http://x'',
             thumbnailUrl = None, duration = None, views = Some 0, canPlay = Some True,
             canShare = Some True, canDownload = Some False, video_createdAt = Some 1,
             updatedAt = Some 1\<rparr>]\<rparr>"
       and i = "''v1''"
       and v = "\<lparr>video_id = ''v1'', title = ''T'', description = None,
             sourceUrl = ''http://x'',
             thumbnailUrl = None, duration = None, views = Some 0, canPlay = Some True,
             canShare = Some True, canDownload = Some False, video_createdAt = Some 1,
             updatedAt = Some 1\<rparr>"
       and p = "\<lparr>user_id = ''u1'', email = ''a@x.org'', password = ''h1'',
                 avatarUrl = None, role = ADMIN, user_createdAt = Some 1000\<rparr>"
       and q = "\<lparr>user_id = ''u1'', email = ''a@x.org'', password = ''h1'',
                 avatarUrl = None, role = USER, user_createdAt = Some 1000\<rparr>"]
  by (simp add: getVideo_def get_video_download_def Let_def)

section \<open>Catalog statistics\<close>

text \<open>
  For an admin, the statistics count the stored videos and add up their views, a
  \<^verbatim>\<open>NULL\<close> counting as 0; the number of users is the constant 1249, whatever the
  store holds.
\<close>

lemma admin_stats:
  assumes "role p = ADMIN"
  shows "get_admin_stats (Some p) st = Response 200 (JObj
     [(''totalVideos'', JNum (int (length (videos st)))),
      (''totalUsers'', JNum 1249),
      (''totalViews'', JNum (sum_list (map (\<lambda>v. orZero (views v)) (videos st))))])"
  using assms
  by (simp add: get_admin_stats_def requireAdmin_admin Let_def getVideos_def
      totalViews_sum_list sum_list_sort_key)

text \<open>
  C4 at a store with one user and no video: the statistics say 1249 users.
\<close>

theorem stats_totalUsers_is_placeholder:
  "(let admin = \<lparr>user_id = ''u1'', email = ''a@x.org'', password = ''h1'', avatarUrl = None,
                 role = ADMIN, user_createdAt = Some 1000\<rparr>;
        st = \<lparr>users = [admin], videos = []\<rparr>
    in length (users st) = 1
     \<and> get_admin_stats (Some admin) st = Response 200 (JObj
          [(''totalVideos'', JNum 0), (''totalUsers'', JNum 1249), (''totalViews'', JNum 0)]))"
  by (simp add: get_admin_stats_def requireAdmin_def getVideos_def totalViews_def Let_def)

section \<open>Catalog mutation\<close>

text \<open>
  C5 as stated fails: the schema asks for strings and sets no minimum length, so a body
  whose title and source are empty strings passes, and the video is created.
\<close>

theorem create_empty_title_counterexample:
  "(let admin = \<lparr>user_id = ''u1'', email = ''a@x.org'', password = ''h1'', avatarUrl = None,
                 role = ADMIN, user_createdAt = Some 1000\<rparr>;
        st = \<lparr>users = [admin], videos = []\<rparr>;
        v = \<lparr>video_id = ''v1'', title = [], description = None, sourceUrl = [],
             thumbnailUrl = None, duration = None, views = Some 0, canPlay = Some True,
             canShare = Some True, canDownload = Some False, video_createdAt = Some 5,
             updatedAt = Some 5\<rparr>
    in post_admin_videos (Some admin) [''title'' \<mapsto> JStr [], ''sourceUrl'' \<mapsto> JStr []] ''v1'' 5 st
         = (Response 201 (adminVideo v), st\<lparr>videos := [v]\<rparr>))"
  by (simp add: post_admin_videos_def requireAdmin_def insertVideoSchema_def createVideo_def
      Let_def)

text \<open>
  C5, amended: for an admin, a create input whose title or source locator is missing or
  is not a string fails with the validation error and creates no video, and create
  succeeds only when both are strings; it does succeed, with a fresh id and no optional
  field given, for any two strings, the empty string included, and stores the defaults:
  no views, playable and shareable, not downloadable.
\<close>

theorem create_requires_title_and_source:
  assumes "role p = ADMIN"
  shows "((\<nexists>t. b ''title'' = Some (JStr t)) \<or> (\<nexists>s. b ''sourceUrl'' = Some (JStr s))
          \<longrightarrow> post_admin_videos (Some p) b newId now st = (Response 400 invalidVideoData, st))
    \<and> (\<forall>j st'. post_admin_videos (Some p) b newId now st = (Response 201 j, st')
          \<longrightarrow> (\<exists>t s. b ''title'' = Some (JStr t) \<and> b ''sourceUrl'' = Some (JStr s)))
    \<and> (\<forall>t s. b ''title'' = Some (JStr t) \<and> b ''sourceUrl'' = Some (JStr s)
          \<and> b ''description'' = None \<and> b ''thumbnailUrl'' = None \<and> b ''duration'' = None
          \<and> b ''canPlay'' = None \<and> b ''canShare'' = None \<and> b ''canDownload'' = None
          \<and> newId \<notin> video_id ` set (videos st)
          \<longrightarrow> (let v = \<lparr>video_id = newId, title = t, description = None, sourceUrl = s,
                         thumbnailUrl = None, duration = None, views = Some 0,
                         canPlay = Some True, canShare = Some True, canDownload = Some False,
                         video_createdAt = Some now, updatedAt = Some now\<rparr>
               in post_admin_videos (Some p) b newId now st
                    = (Response 201 (adminVideo v), st\<lparr>videos := videos st @ [v]\<rparr>)))"
proof -
  have title: "zRequired zString (b ''title'') = None" if "\<nexists>t. b ''title'' = Some (JStr t)"
  proof (cases "b ''title''")
    case None
    then show ?thesis by simp
  next
    case (Some j)
    with that show ?thesis by (cases j) simp_all
  qed
  have source: "zRequired zString (b ''sourceUrl'') = None"
    if "\<nexists>s. b ''sourceUrl'' = Some (JStr s)"
  proof (cases "b ''sourceUrl''")
    case None
    then show ?thesis by simp
  next
    case (Some j)
    with that show ?thesis by (cases j) simp_all
  qed
  have parse: "insertVideoSchema b = None"
    if "(\<nexists>t. b ''title'' = Some (JStr t)) \<or> (\<nexists>s. b ''sourceUrl'' = Some (JStr s))"
    using that title source
    by (auto simp add: insertVideoSchema_def bind_eq_None_conv)
  have refused: "post_admin_videos (Some p) b newId now st = (Response 400 invalidVideoData, st)"
    if "(\<nexists>t. b ''title'' = Some (JStr t)) \<or> (\<nexists>s. b ''sourceUrl'' = Some (JStr s))"
    using parse [OF that] assms
    by (simp add: post_admin_videos_def requireAdmin_admin)
  have only: "\<exists>t s. b ''title'' = Some (JStr t) \<and> b ''sourceUrl'' = Some (JStr s)"
    if "post_admin_videos (Some p) b newId now st = (Response 201 j, st')" for j st'
  proof (rule ccontr)
    assume "\<not> (\<exists>t s. b ''title'' = Some (JStr t) \<and> b ''sourceUrl'' = Some (JStr s))"
    then have "(\<nexists>t. b ''title'' = Some (JStr t)) \<or> (\<nexists>s. b ''sourceUrl'' = Some (JStr s))"
      by blast
    from refused [OF this] that show False by simp
  qed
  have created: "post_admin_videos (Some p) b newId now st
      = (Response 201 (adminVideo
           \<lparr>video_id = newId, title = t, description = None, sourceUrl = s,
            thumbnailUrl = None, duration = None, views = Some 0,
            canPlay = Some True, canShare = Some True, canDownload = Some False,
            video_createdAt = Some now, updatedAt = Some now\<rparr>),
         st\<lparr>videos := videos st @
           [\<lparr>video_id = newId, title = t, description = None, sourceUrl = s,
            thumbnailUrl = None, duration = None, views = Some 0,
            canPlay = Some True, canShare = Some True, canDownload = Some False,
            video_createdAt = Some now, updatedAt = Some now\<rparr>]\<rparr>)"
    if "b ''title'' = Some (JStr t)" "b ''sourceUrl'' = Some (JStr s)"
      "b ''description'' = None" "b ''thumbnailUrl'' = None" "b ''duration'' = None"
      "b ''canPlay'' = None" "b ''canShare'' = None" "b ''canDownload'' = None"
      "newId \<notin> video_id ` set (videos st)" for t s
  proof -
    have "insertVideoSchema b = Some \<lparr>ins_title = t, ins_description = Undefined,
        ins_sourceUrl = s, ins_thumbnailUrl = Undefined, ins_duration = Undefined,
        ins_canPlay = Undefined, ins_canShare = Undefined, ins_canDownload = Undefined\<rparr>"
      using that by (simp add: insertVideoSchema_def)
    moreover have "\<not> (\<exists>v \<in> set (videos st). video_id v = newId)"
      using that(9) by auto
    ultimately show ?thesis
      using assms by (simp add: post_admin_videos_def requireAdmin_admin createVideo_def Let_def)
  qed
  show ?thesis
    using refused only created by (simp add: Let_def)
qed

text \<open>
  The theorem for an admin: a body without a title is refused and the store stays
  empty; a body with both strings is stored.
\<close>

theorem create_requires_title_and_source_witness:
  "(let admin = \<lparr>user_id = ''u1'', email = ''a@x.org'', password = ''h1'', avatarUrl = None,
                 role = ADMIN, user_createdAt = Some 1000\<rparr>;
        st = \<lparr>users = [admin], videos = []\<rparr>
    in role admin = ADMIN
     \<and> post_admin_videos (Some admin) [''sourceUrl'' \<mapsto> JStr ''http://x''] ''v1'' 5 st
         = (Response 400 invalidVideoData, st)
     \<and> post_admin_videos (Some admin) [''title'' \<mapsto> JNum 7, ''sourceUrl'' \<mapsto> JStr ''http://x'']
           ''v1'' 5 st
         = (Response 400 invalidVideoData, st)
     \<and> length (videos (snd (post_admin_videos (Some admin)
           [''title'' \<mapsto> JStr ''T'', ''sourceUrl'' \<mapsto> JStr ''http://x''] ''v1'' 5 st))) = 1)"
  using create_requires_title_and_source
    [where p = "\<lparr>user_id = ''u1'', email = ''a@x.org'', password = ''h1'', avatarUrl = None,
                 role = ADMIN, user_createdAt = Some 1000\<rparr>"
       and b = "[''sourceUrl'' \<mapsto> JStr ''http://x'']" and newId = "''v1''" and now = 5
       and st = "\<lparr>users = [\<lparr>user_id = ''u1'', email = ''a@x.org'', password = ''h1'',
                 avatarUrl = None, role = ADMIN, user_createdAt = Some 1000\<rparr>], videos = []\<rparr>"]
  by (simp add: post_admin_videos_def requireAdmin_def insertVideoSchema_def createVideo_def
      Let_def)

text \<open>
  What the parse of an update body hands on: a field the body leaves out stays
  \<open>Undefined\<close>, and a title given as a string is handed on as it is.
\<close>

lemma updateVideoSchema_absent:
  assumes "updateVideoSchema b = Some upd"
  shows "b ''title'' = None \<Longrightarrow> upd_title upd = Undefined"
    and "b ''description'' = None \<Longrightarrow> upd_description upd = Undefined"
    and "b ''sourceUrl'' = None \<Longrightarrow> upd_sourceUrl upd = Undefined"
    and "b ''thumbnailUrl'' = None \<Longrightarrow> upd_thumbnailUrl upd = Undefined"
    and "b ''duration'' = None \<Longrightarrow> upd_duration upd = Undefined"
    and "b ''canPlay'' = None \<Longrightarrow> upd_canPlay upd = Undefined"
    and "b ''canShare'' = None \<Longrightarrow> upd_canShare upd = Undefined"
    and "b ''canDownload'' = None \<Longrightarrow> upd_canDownload upd = Undefined"
  using assms by (auto simp: updateVideoSchema_def bind_eq_Some_conv)

lemma updateVideoSchema_title:
  assumes "updateVideoSchema b = Some upd" and "b ''title'' = Some (JStr t)"
  shows "upd_title upd = Given t"
  using assms by (auto simp: updateVideoSchema_def bind_eq_Some_conv)

lemma setVideo_frame:
  "video_id (setVideo upd now v) = video_id v"
  "views (setVideo upd now v) = views v"
  "video_createdAt (setVideo upd now v) = video_createdAt v"
  "updatedAt (setVideo upd now v) = Some now"
  "upd_title upd = Undefined \<Longrightarrow> title (setVideo upd now v) = title v"
  "upd_title upd = Given t \<Longrightarrow> title (setVideo upd now v) = t"
  "upd_description upd = Undefined \<Longrightarrow> description (setVideo upd now v) = description v"
  "upd_sourceUrl upd = Undefined \<Longrightarrow> sourceUrl (setVideo upd now v) = sourceUrl v"
  "upd_thumbnailUrl upd = Undefined \<Longrightarrow> thumbnailUrl (setVideo upd now v) = thumbnailUrl v"
  "upd_duration upd = Undefined \<Longrightarrow> duration (setVideo upd now v) = duration v"
  "upd_canPlay upd = Undefined \<Longrightarrow> canPlay (setVideo upd now v) = canPlay v"
  "upd_canShare upd = Undefined \<Longrightarrow> canShare (setVideo upd now v) = canShare v"
  "upd_canDownload upd = Undefined \<Longrightarrow> canDownload (setVideo upd now v) = canDownload v"
  by (simp_all add: setVideo_def)

text \<open>
  The update route either leaves the store alone (a request that is not an admin's, a
  body that does not parse) or maps \<open>setVideo\<close> over the rows with the given id.
\<close>

lemma put_admin_videos_store:
  assumes "put_admin_videos req_user i b now st = (r, st')"
  obtains (same) "st' = st"
      and "requireAdmin req_user \<noteq> None \<or> updateVideoSchema b = None"
    | (changed) upd where "updateVideoSchema b = Some upd"
      and "st' = st\<lparr>videos := map (\<lambda>v. if video_id v = i then setVideo upd now v else v)
                                  (videos st)\<rparr>"
  using assms
  by (auto simp: put_admin_videos_def updateVideo_def Let_def
      split: option.splits prod.splits)

text \<open>
  C6: whoever sends the update and whatever the body holds, every stored video keeps its
  id, its view count and its creation time, keeps every field the body does not supply,
  and a video with another id is not changed at all; the users are not changed. When an
  admin's body parses, the video with the given id has \<^verbatim>\<open>updatedAt\<close> set to now,
  and a title the body supplies is the new title.
\<close>

theorem update_changes_only_supplied:
  assumes "put_admin_videos req_user i b now st = (r, st')"
  shows "users st' = users st \<and> length (videos st') = length (videos st)
    \<and> (\<forall>k < length (videos st).
          video_id (videos st' ! k) = video_id (videos st ! k)
        \<and> views (videos st' ! k) = views (videos st ! k)
        \<and> video_createdAt (videos st' ! k) = video_createdAt (videos st ! k)
        \<and> (b ''title'' = None \<longrightarrow> title (videos st' ! k) = title (videos st ! k))
        \<and> (b ''description'' = None
             \<longrightarrow> description (videos st' ! k) = description (videos st ! k))
        \<and> (b ''sourceUrl'' = None \<longrightarrow> sourceUrl (videos st' ! k) = sourceUrl (videos st ! k))
        \<and> (b ''thumbnailUrl'' = None
             \<longrightarrow> thumbnailUrl (videos st' ! k) = thumbnailUrl (videos st ! k))
        \<and> (b ''duration'' = None \<longrightarrow> duration (videos st' ! k) = duration (videos st ! k))
        \<and> (b ''canPlay'' = None \<longrightarrow> canPlay (videos st' ! k) = canPlay (videos st ! k))
        \<and> (b ''canShare'' = None \<longrightarrow> canShare (videos st' ! k) = canShare (videos st ! k))
        \<and> (b ''canDownload'' = None
             \<longrightarrow> canDownload (videos st' ! k) = canDownload (videos st ! k))
        \<and> (video_id (videos st ! k) \<noteq> i \<longrightarrow> videos st' ! k = videos st ! k)
        \<and> (video_id (videos st ! k) = i \<and> requireAdmin req_user = None
             \<and> updateVideoSchema b \<noteq> None
             \<longrightarrow> updatedAt (videos st' ! k) = Some now
               \<and> (\<forall>t. b ''title'' = Some (JStr t) \<longrightarrow> title (videos st' ! k) = t)))"
  using assms
proof (cases rule: put_admin_videos_store)
  case same
  then show ?thesis by auto
next
  case (changed upd)
  show ?thesis
    unfolding changed(2)
    using updateVideoSchema_absent [OF changed(1)] updateVideoSchema_title [OF changed(1)]
    by (simp add: setVideo_frame)
qed

text \<open>
  The theorem at an admin's update of the title of a video described as X, in a body that
  also names \<^verbatim>\<open>views\<close> and \<^verbatim>\<open>createdAt\<close>: the title and
  \<^verbatim>\<open>updatedAt\<close> change, the description, the view count and the creation time
  do not.
\<close>

theorem update_changes_only_supplied_witness:
  "(let admin = \<lparr>user_id = ''u1'', email = ''a@x.org'', password = ''h1'', avatarUrl = None,
                 role = ADMIN, user_createdAt = Some 1000\<rparr>;
        v = \<lparr>video_id = ''v1'', title = ''Old'', description = Some ''X'',
             sourceUrl = ''http://x'', thumbnailUrl = None, duration = None, views = Some 3,
             canPlay = Some True, canShare = Some True, canDownload = Some False,
             video_createdAt = Some 1, updatedAt = Some 1\<rparr>;
        v' = v\<lparr>title := ''New'', updatedAt := Some 9\<rparr>;
        st = \<lparr>users = [admin], videos = [v]\<rparr>
    in put_admin_videos (Some admin) ''v1''
         [''title'' \<mapsto> JStr ''New'', ''views'' \<mapsto> JNum 99, ''createdAt'' \<mapsto> JNum 0] 9 st
       = (Response 200 (adminVideo v'), st\<lparr>videos := [v']\<rparr>)
     \<and> description v' = Some ''X'' \<and> views v' = Some 3 \<and> video_createdAt v' = Some 1)"
  using update_changes_only_supplied
    [where req_user = "Some \<lparr>user_id = ''u1'', email = ''a@x.org'', password = ''h1'',
                 avatarUrl = None, role = ADMIN, user_createdAt = Some 1000\<rparr>"
       and i = "''v1''"
       and b = "[''title'' \<mapsto> JStr ''New'', ''views'' \<mapsto> JNum 99, ''createdAt'' \<mapsto> JNum 0]"
       and now = 9
       and st = "\<lparr>users = [\<lparr>user_id = ''u1'', email = ''a@x.org'', password = ''h1'',
                 avatarUrl = None, role = ADMIN, user_createdAt = Some 1000\<rparr>],
              videos = [\<lparr>video_id = ''v1'', title = ''Old'', description = Some ''X'',
             sourceUrl = ''http://x'', thumbnailUrl = None, duration = None, views = Some 3,
             canPlay = Some True, canShare = Some True, canDownload = Some False,
             video_createdAt = Some 1, updatedAt = Some 1\<rparr>]\<rparr>"]
  by (simp add: put_admin_videos_def requireAdmin_def updateVideoSchema_def updateVideo_def
      setVideo_def Let_def)

section \<open>The view counter\<close>

text \<open>
  No route writes \<^verbatim>\<open>NULL\<close> into the view count: an insert stores 0, an update
  leaves the column alone, a delete removes rows and a view adds one. So every store
  the routes produce has a count for every video.
\<close>

lemma views_counted_users [simp]: "views_counted (st\<lparr>users := us\<rparr>) = views_counted st"
  by (simp add: views_counted_def)

lemma views_counted_incrementVideoViews:
  "views_counted st \<Longrightarrow> views_counted (incrementVideoViews st i)"
  by (auto simp: views_counted_def incrementVideoViews_def list_all_iff)

lemma views_counted_createVideo:
  "views_counted st \<Longrightarrow> createVideo st ins newId now = Some (v, st') \<Longrightarrow> views_counted st'"
  by (auto simp: views_counted_def createVideo_def Let_def list_all_iff split: if_splits)

lemma views_counted_updateVideo:
  "views_counted st \<Longrightarrow> views_counted (snd (updateVideo st i upd now))"
  by (auto simp: views_counted_def updateVideo_def Let_def list_all_iff setVideo_def)

lemma views_counted_deleteVideo:
  "views_counted st \<Longrightarrow> views_counted (snd (deleteVideo st i))"
  by (auto simp: views_counted_def deleteVideo_def list_all_iff)

lemma views_counted_get_video:
  "views_counted st \<Longrightarrow> views_counted (snd (get_video req_user i st))"
  by (auto simp: get_video_def views_counted_incrementVideoViews split: option.splits)

lemma views_counted_post_admin_videos:
  "views_counted st \<Longrightarrow> views_counted (snd (post_admin_videos req_user b newId now st))"
  by (auto simp: post_admin_videos_def split: option.splits dest: views_counted_createVideo)

lemma views_counted_put_admin_videos:
  assumes "views_counted st"
  shows "views_counted (snd (put_admin_videos req_user i b now st))"
proof -
  have "snd (case updateVideo st i upd now of
          (None, st') \<Rightarrow> (Response 404 (message ''Video not found''), st')
        | (Some v, st') \<Rightarrow> (Response 200 (adminVideo v), st')) = snd (updateVideo st i upd now)"
    for upd
    by (simp split: prod.split option.split)
  with assms show ?thesis
    by (simp add: put_admin_videos_def views_counted_updateVideo split: option.split)
qed

lemma views_counted_delete_admin_videos:
  assumes "views_counted st"
  shows "views_counted (snd (delete_admin_videos req_user i st))"
proof -
  have "snd (case deleteVideo st i of
          (False, st') \<Rightarrow> (Response 404 (message ''Video not found''), st')
        | (True, st') \<Rightarrow> (SendStatus 204, st')) = snd (deleteVideo st i)"
    by (simp split: prod.split bool.split)
  with assms show ?thesis
    by (simp add: delete_admin_videos_def views_counted_deleteVideo split: option.split)
qed

lemma reachable_views_counted: "reachable st \<Longrightarrow> views_counted st"
proof (induction rule: reachable.induct)
  case (start st)
  then show ?case by (simp add: views_counted_def)
next
  case (accounts st us)
  then show ?case by simp
next
  case (created st req_user b newId now)
  then show ?case by (simp add: views_counted_post_admin_videos)
next
  case (updated st req_user i b now)
  then show ?case by (simp add: views_counted_put_admin_videos)
next
  case (deleted st req_user i)
  then show ?case by (simp add: views_counted_delete_admin_videos)
next
  case (viewed st req_user i)
  then show ?case by (simp add: views_counted_get_video)
qed









end
